theory Spec2Isabelle
  imports Complex_Main "HOL-Library.AList"
begin

section \<open>Segment timing (video\_composer.py, lines 65--74)\<close>

text \<open>
  Durations are Python floats in the source. They are modelled as \<^typ>\<open>real\<close>: the
  arithmetic below is the exact arithmetic that the float operations approximate.

  The body of the loop of \<open>build_video\<close> computes, for one segment,
  \<^verbatim>\<open>
  teaching_gap = 0.2
  en_start = 0.0
  ur_start = en_tts.duration + teaching_gap
  total_audio_duration = ur_start + ur_tts.duration + pause_after
  if total_audio_duration < min_duration:
      total_audio_duration = min_duration
  \<close>
\<close>

definition teaching_gap :: real where
  "teaching_gap = 0.2"

record timing =
  en_start :: real
  ur_start :: real
  total_audio_duration :: real

definition segment_timing :: "real \<Rightarrow> real \<Rightarrow> real \<Rightarrow> real \<Rightarrow> timing" where
  "segment_timing en_duration ur_duration pause_after min_duration =
     (let us = en_duration + teaching_gap;
          total = us + ur_duration + pause_after;
          total' = (if total < min_duration then min_duration else total)
      in \<lparr>en_start = 0, ur_start = us, total_audio_duration = total'\<rparr>)"

section \<open>Python values and exceptions\<close>

type_synonym path = string

text \<open>
  What \<open>json.load\<close> returns. Integers and floats of the script are both numbers here;
  an object keeps its members in file order.
\<close>

datatype json =
    JNull
  | JBool bool
  | JNum real
  | JStr string
  | JArr "json list"
  | JObj "(string \<times> json) list"

text \<open>
  The exceptions the modelled code raises. The two font errors are the
  \<open>RuntimeError\<close>s of \<open>load_font\<close>, with the values their messages are formatted
  from; \<open>LibraryError\<close> is any exception raised inside an external collaborator.
\<close>

datatype error =
    ValueError string
  | AttributeError string
  | TypeError string
  | ZeroDivisionError
  | FailedToLoadFont path error
  | FontPathMissing "path option"
  | LibraryError string

text \<open>\<open>d.get(k, default)\<close> on a parsed object: the last member with the key wins.\<close>

definition dict_get :: "(string \<times> json) list \<Rightarrow> string \<Rightarrow> json \<Rightarrow> json" where
  "dict_get kvs k d = (case map_of (rev kvs) k of None \<Rightarrow> d | Some v \<Rightarrow> v)"

text \<open>Truth value of a parsed value, as \<open>or\<close> and \<open>if\<close> test it.\<close>

fun py_truthy :: "json \<Rightarrow> bool" where
  "py_truthy JNull = False"
| "py_truthy (JBool b) = b"
| "py_truthy (JNum x) = (x \<noteq> 0)"
| "py_truthy (JStr s) = (s \<noteq> [])"
| "py_truthy (JArr xs) = (xs \<noteq> [])"
| "py_truthy (JObj kvs) = (kvs \<noteq> [])"

text \<open>
  \<open>float(v)\<close>. Parsing a string is left to the parameter \<open>parse\<close> (\<open>None\<close> when
  Python raises \<open>ValueError\<close>).
\<close>

fun py_float :: "(string \<Rightarrow> real option) \<Rightarrow> json \<Rightarrow> error + real" where
  "py_float parse (JNum x) = Inr x"
| "py_float parse (JBool b) = Inr (if b then 1 else 0)"
| "py_float parse (JStr s) =
     (case parse s of None \<Rightarrow> Inl (ValueError ''could not convert string to float'')
      | Some x \<Rightarrow> Inr x)"
| "py_float parse v = Inl (TypeError ''float() argument must be a string or a real number'')"

text \<open>\<open>float(v or 0.0)\<close>, as the script's \<open>pause_after\<close> and \<open>min_duration\<close> are read.\<close>

definition float_or_zero :: "(string \<Rightarrow> real option) \<Rightarrow> json \<Rightarrow> error + real" where
  "float_or_zero parse v = py_float parse (if py_truthy v then v else JNum 0.0)"

text \<open>Truth value of an optional string argument (\<open>None\<close> and \<open>""\<close> are false).\<close>

fun str_truthy :: "string option \<Rightarrow> bool" where
  "str_truthy None = False"
| "str_truthy (Some s) = (s \<noteq> [])"

subsection \<open>String operations\<close>

text \<open>\<open>str.lower\<close>, on the ASCII letters (a \<^typ>\<open>char\<close> is a byte).\<close>

definition lower_char :: "char \<Rightarrow> char" where
  "lower_char c =
     (case map_of (zip ''ABCDEFGHIJKLMNOPQRSTUVWXYZ'' ''abcdefghijklmnopqrstuvwxyz'') c of
        None \<Rightarrow> c | Some l \<Rightarrow> l)"

definition lower :: "string \<Rightarrow> string" where
  "lower s = map lower_char s"

fun startswith :: "string \<Rightarrow> string \<Rightarrow> bool" where
  "startswith s [] = True"
| "startswith [] (p # ps) = False"
| "startswith (c # cs) (p # ps) = (c = p \<and> startswith cs ps)"

definition endswith :: "string \<Rightarrow> string \<Rightarrow> bool" where
  "endswith s suf = startswith (rev s) (rev suf)"

text \<open>\<open>sub in s\<close> for strings.\<close>

fun str_in :: "string \<Rightarrow> string \<Rightarrow> bool" where
  "str_in sub [] = (sub = [])"
| "str_in sub (c # cs) = (startswith (c # cs) sub \<or> str_in sub cs)"

section \<open>Font resolution and loading (fonts.py)\<close>

text \<open>
  The file system and the font library, as the functions of fonts.py see them.
  \<open>fonts_config_file\<close> is \<open>fonts_config.json\<close> in the working directory: \<open>None\<close>
  when it is not a file, \<open>Some (Inl e)\<close> when opening or parsing it raises,
  \<open>Some (Inr v)\<close> when it parses to \<open>v\<close>. The process-wide cache of the parsed
  configuration is not modelled: the file is taken not to change during a render.
  \<open>truetype p size\<close> is \<open>ImageFont.truetype\<close>: \<open>None\<close> when the font file loads,
  the exception otherwise.
\<close>

record font_system =
  fonts_config_file :: "(error + json) option"
  local_fonts_dir :: path
  windows_fonts_dir :: path
  isdir :: "path \<Rightarrow> bool"
  isfile :: "path \<Rightarrow> bool"
  walk :: "path \<Rightarrow> (path \<times> string list) list"
  path_join :: "path \<Rightarrow> string \<Rightarrow> path"
  basename :: "path \<Rightarrow> string"
  truetype :: "path \<Rightarrow> nat \<Rightarrow> error option"

record font =
  font_file :: path
  font_size :: nat

definition PREFERRED_FONTS_URDU :: "string list" where
  "PREFERRED_FONTS_URDU =
     [''Arial'', ''Noto Nastaliq Urdu'', ''Jameel Noori Nastaleeq'',
      ''Jameel Noori Nastaleeq Kasheeda'', ''Nafees Web Naskh'', ''Nafees Nastaleeq'']"

definition PREFERRED_FONTS_EN :: "string list" where
  "PREFERRED_FONTS_EN = [''Segoe UI'', ''Arial'', ''Roboto'']"

definition load_fonts_config :: "font_system \<Rightarrow> json" where
  "load_fonts_config fs =
     (case fonts_config_file fs of
        None \<Rightarrow> JObj []
      | Some (Inl e) \<Rightarrow> JObj []
      | Some (Inr v) \<Rightarrow> (if py_truthy v then v else JObj []))"

definition font_files_in :: "font_system \<Rightarrow> path \<Rightarrow> path list" where
  "font_files_in fs base =
     (if isdir fs base
      then concat (map (\<lambda>(root, files).
             map (path_join fs root)
               (filter (\<lambda>f. endswith (lower f) ''.ttf'' \<or> endswith (lower f) ''.otf'') files))
             (walk fs base))
      else [])"

definition candidate_font_paths :: "font_system \<Rightarrow> path list" where
  "candidate_font_paths fs =
     (let search_dirs =
            (if isdir fs (local_fonts_dir fs) then [local_fonts_dir fs] else [])
            @ [windows_fonts_dir fs]
      in concat (map (font_files_in fs) search_dirs))"

text \<open>
  The dictionary \<open>{basename(p).lower(): p for p in candidates}\<close>, in insertion order:
  a later path with the same key replaces the value and keeps the key's place.
\<close>

definition lower_map :: "font_system \<Rightarrow> path list \<Rightarrow> (string \<times> path) list" where
  "lower_map fs candidates =
     fold (\<lambda>p m. AList.update (lower (basename fs p)) p m) candidates []"

fun first_match :: "(string \<times> path) list \<Rightarrow> string list \<Rightarrow> path option" where
  "first_match m [] = None"
| "first_match m (name # names) =
     (case List.find (\<lambda>(base, full). str_in (lower name) base) m of
        Some (base, full) \<Rightarrow> Some full
      | None \<Rightarrow> first_match m names)"

definition find_font_by_preferred_names :: "font_system \<Rightarrow> string list \<Rightarrow> path option" where
  "find_font_by_preferred_names fs preferred =
     first_match (lower_map fs (candidate_font_paths fs)) preferred"

text \<open>
  The steps of \<open>get_urdu_font_path\<close> and \<open>get_english_font_path\<close> after the override:
  the configured path if it is a string naming a file, then the preferred names, then
  the first candidate whose lower-cased base name contains one of \<open>tags\<close>, then the
  first that contains \<open>arial\<close>. \<open>cfg.get\<close> raises when the configuration is not an object.
\<close>

definition first_tagged :: "font_system \<Rightarrow> string list \<Rightarrow> path option" where
  "first_tagged fs tags =
     List.find (\<lambda>p. list_ex (\<lambda>tag. str_in tag (lower (basename fs p))) tags)
       (candidate_font_paths fs)"

text \<open>\<open>isinstance(cfg_path, str) and os.path.isfile(cfg_path)\<close>\<close>

fun is_str_file :: "font_system \<Rightarrow> json \<Rightarrow> bool" where
  "is_str_file fs (JStr s) = isfile fs s"
| "is_str_file fs v = False"

fun str_of :: "json \<Rightarrow> string option" where
  "str_of (JStr s) = Some s"
| "str_of v = None"

definition get_urdu_font_path :: "font_system \<Rightarrow> path option \<Rightarrow> error + path option" where
  "get_urdu_font_path fs override_path =
     (if str_truthy override_path then Inr override_path
      else case load_fonts_config fs of
        JObj cfg \<Rightarrow>
          (let cfg_path = dict_get cfg ''urdu_font_path'' JNull in
           if is_str_file fs cfg_path then Inr (str_of cfg_path)
           else let found = find_font_by_preferred_names fs PREFERRED_FONTS_URDU in
             if str_truthy found then Inr found
             else (case first_tagged fs [''arab'', ''urdu'', ''naskh'', ''nastaliq''] of
                     Some p \<Rightarrow> Inr (Some p)
                   | None \<Rightarrow> Inr (first_tagged fs [''arial''])))
      | _ \<Rightarrow> Inl (AttributeError ''get''))"

definition get_english_font_path :: "font_system \<Rightarrow> path option \<Rightarrow> error + path option" where
  "get_english_font_path fs override_path =
     (if str_truthy override_path then Inr override_path
      else case load_fonts_config fs of
        JObj cfg \<Rightarrow>
          (let cfg_path = dict_get cfg ''english_font_path'' JNull in
           if is_str_file fs cfg_path then Inr (str_of cfg_path)
           else let found = find_font_by_preferred_names fs PREFERRED_FONTS_EN in
             if str_truthy found then Inr found
             else Inr (first_tagged fs [''arial'']))
      | _ \<Rightarrow> Inl (AttributeError ''get''))"

text \<open>
  \<open>load_font\<close>: the font at \<open>path\<close> in the given size, or a \<open>RuntimeError\<close> that
  carries the path.
\<close>

definition load_font :: "font_system \<Rightarrow> path option \<Rightarrow> nat \<Rightarrow> error + font" where
  "load_font fs p sz =
     (if str_truthy p \<and> isfile fs (the p)
      then (case truetype fs (the p) sz of
              None \<Rightarrow> Inr \<lparr>font_file = the p, font_size = sz\<rparr>
            | Some exc \<Rightarrow> Inl (FailedToLoadFont (the p) exc))
      else Inl (FontPathMissing p))"

section \<open>Clips and the timeline (the moviepy objects of video\_composer.py)\<close>

text \<open>
  The clip objects of the video library, reduced to what \<open>build_video\<close> sets and
  reads: start, duration, fades, the audio attached to a picture. An operation of the
  library is modelled by what it does to these fields.
\<close>

record tts_audio =
  tts_path :: path
  tts_duration :: real

record frame =
  fr_background :: path
  fr_en_font :: font
  fr_ur_font :: font
  fr_en_text :: json
  fr_ur_text :: json

record audio_track =
  at_source :: path
  at_start :: real
  at_duration :: real
  at_volume :: real

record audio_clip =
  ac_tracks :: "audio_track list"
  ac_start :: real
  ac_duration :: real
  ac_fadein :: real
  ac_fadeout :: real

record video_clip =
  vc_frame :: frame
  vc_start :: real
  vc_duration :: real
  vc_audio :: "audio_clip option"
  vc_fadein :: real
  vc_fadeout :: real

record bgm_clip =
  bgm_source :: path
  bgm_copies :: int
  bgm_duration :: real
  bgm_volume :: real

text \<open>An additive mix of the segments' speech and of music clips.\<close>

record audio_mix =
  am_speech :: "audio_clip list"
  am_music :: "bgm_clip list"

record timeline =
  tl_clips :: "video_clip list"
  tl_duration :: real
  tl_audio :: "audio_mix option"
  tl_fps :: "nat option"
  tl_size :: "nat \<times> nat"

definition VIDEO_WIDTH :: nat where "VIDEO_WIDTH = 1080"
definition VIDEO_HEIGHT :: nat where "VIDEO_HEIGHT = 1920"
definition FPS :: nat where "FPS = 24"
definition en_font_size :: nat where "en_font_size = 54"
definition ur_font_size :: nat where "ur_font_size = 64"

text \<open>
  \<open>CompositeAudioClip(tracks)\<close>: the tracks overlaid at their start offsets; it lasts
  until the last track ends.
\<close>

fun max_list :: "real list \<Rightarrow> real" where
  "max_list [] = 0"
| "max_list (x # xs) = fold max xs x"

definition CompositeAudioClip :: "audio_track list \<Rightarrow> audio_clip" where
  "CompositeAudioClip tracks =
     \<lparr>ac_tracks = tracks, ac_start = 0,
      ac_duration = max_list (map (\<lambda>t. at_start t + at_duration t) tracks),
      ac_fadein = 0, ac_fadeout = 0\<rparr>"

text \<open>
  \<open>concatenate_videoclips(clips, method="compose")\<close>: the start times are the running
  sums of the durations, from 0 and from left to right; the result lasts until the last
  running sum; its audio is the clips' audio, each moved to its clip's start. The
  library takes the maximum of the clips' sizes, which fails on no clip at all.
\<close>

fun place :: "real \<Rightarrow> video_clip list \<Rightarrow> video_clip list" where
  "place t [] = []"
| "place t (c # cs) = c\<lparr>vc_start := t\<rparr> # place (t + vc_duration c) cs"

definition placed_audio :: "video_clip list \<Rightarrow> audio_clip list" where
  "placed_audio cs =
     concat (map (\<lambda>c. case vc_audio c of None \<Rightarrow> []
                        | Some a \<Rightarrow> [a\<lparr>ac_start := vc_start c\<rparr>]) cs)"

definition concatenate_videoclips :: "video_clip list \<Rightarrow> error + timeline" where
  "concatenate_videoclips clips =
     (if clips = [] then Inl (ValueError ''max() arg is an empty sequence'')
      else let placed = place 0 clips;
               audio_t = placed_audio placed
           in Inr \<lparr>tl_clips = placed,
                   tl_duration = fold (\<lambda>c t. t + vc_duration c) clips 0,
                   tl_audio = (if audio_t = [] then None
                               else Some \<lparr>am_speech = audio_t, am_music = []\<rparr>),
                   tl_fps = None,
                   tl_size = (VIDEO_WIDTH, VIDEO_HEIGHT)\<rparr>)"

text \<open>
  The background music clip: \<open>AudioFileClip(path)\<close> of duration \<open>d\<close>,
  \<open>clip.loop(n=k)\<close> (\<open>k\<close> whole copies played one after the other),
  \<open>clip.subclip(0, t_end)\<close> (the library raises when the start lies after the clip's
  end, and otherwise sets the duration to \<open>t_end - 0\<close>) and \<open>clip.volumex(v)\<close>.
\<close>

definition bgm_of_file :: "path \<Rightarrow> real \<Rightarrow> bgm_clip" where
  "bgm_of_file p d = \<lparr>bgm_source = p, bgm_copies = 1, bgm_duration = d, bgm_volume = 1\<rparr>"

definition loop :: "int \<Rightarrow> bgm_clip \<Rightarrow> bgm_clip" where
  "loop n c = c\<lparr>bgm_copies := n, bgm_duration := of_int n * bgm_duration c\<rparr>"

definition subclip :: "real \<Rightarrow> real \<Rightarrow> bgm_clip \<Rightarrow> error + bgm_clip" where
  "subclip t_start t_end c =
     (if t_start > bgm_duration c
      then Inl (ValueError ''t_start should be smaller than the clip's duration'')
      else Inr (c\<lparr>bgm_duration := t_end - t_start\<rparr>))"

definition volumex :: "real \<Rightarrow> bgm_clip \<Rightarrow> bgm_clip" where
  "volumex v c = c\<lparr>bgm_volume := bgm_volume c * v\<rparr>"

text \<open>\<open>int(x)\<close> on a float: truncation towards zero.\<close>

definition py_int :: "real \<Rightarrow> int" where
  "py_int x = (if 0 \<le> x then \<lfloor>x\<rfloor> else \<lceil>x\<rceil>)"

section \<open>The render (video\_composer.py)\<close>

text \<open>
  The collaborators of \<open>build_video\<close>, each a function of its arguments:
  \<open>read_json\<close> opens and parses the script; \<open>ensure_temp_dirs\<close> creates the
  temporary directories (\<open>None\<close> when it succeeds); \<open>prepare_background_image\<close> and
  \<open>save_fallback_background\<close> give the path of the background written under the
  temporary directory; the two speech functions give the audio file and its measured
  duration; \<open>open_background\<close> and \<open>draw_caption\<close> are the image steps of
  \<open>render_caption_frame\<close> (\<open>None\<close> when they succeed); \<open>AudioFileClip\<close> gives the
  duration the video library reads from an audio file; \<open>audio_has_loop\<close> tells
  whether the installed video library gives such an audio clip the method \<open>loop\<close>
  that line 112 calls (the lookup raises \<open>AttributeError\<close> otherwise);
  \<open>write_videofile\<close> is the encoder.
\<close>

datatype file_status = Partial | Complete

text \<open>
  What the encoder did with the path it was given: it wrote the whole file, or it
  raised, having created a file there (\<open>True\<close>) or not.
\<close>

datatype sink_result = Encoded | EncodeFailed error bool

record env =
  fonts :: font_system
  read_json :: "path \<Rightarrow> error + json"
  float_of_str :: "string \<Rightarrow> real option"
  ensure_temp_dirs :: "error option"
  prepare_background_image :: "path \<Rightarrow> error + path"
  save_fallback_background :: "error + path"
  generate_english_tts :: "json \<Rightarrow> error + tts_audio"
  generate_urdu_tts :: "json \<Rightarrow> error + tts_audio"
  open_background :: "path \<Rightarrow> error option"
  draw_caption :: "frame \<Rightarrow> error option"
  AudioFileClip :: "path \<Rightarrow> error + real"
  audio_has_loop :: bool
  write_videofile :: "timeline \<Rightarrow> path \<Rightarrow> sink_result"

text \<open>
  The arguments of \<open>build_video\<close>. \<open>log_given\<close> tells whether a \<open>log\<close> callback
  was passed; the callback is taken to record its message.
\<close>

record build_args =
  script_path :: path
  output_path :: path
  background_path :: "path option"
  english_font_path :: "path option"
  urdu_font_path :: "path option"
  bgm_path :: "path option"
  bgm_volume_arg :: real
  log_given :: bool

text \<open>What a run does outside the process, in order.\<close>

datatype log_msg = SegmentProgress nat nat | BgmWarning error

datatype event =
    TempDirsEnsured
  | BackgroundSaved path
  | Logged log_msg
  | SpeechSaved path
  | FrameRendered
  | OutputFile path file_status

definition load_script :: "env \<Rightarrow> path \<Rightarrow> error + json list" where
  "load_script ev p =
     (case read_json ev p of
        Inl e \<Rightarrow> Inl e
      | Inr (JArr xs) \<Rightarrow> Inr xs
      | Inr _ \<Rightarrow> Inl (ValueError ''Script must be a list of {en, ur} objects''))"

text \<open>\<open>render_caption_frame\<close> (caption\_renderer.py), with the drawing left abstract.\<close>

definition render_caption_frame ::
  "env \<Rightarrow> path \<Rightarrow> (string \<times> json) list \<Rightarrow> path option \<Rightarrow> path option \<Rightarrow> error + frame" where
  "render_caption_frame ev bg pair en_font_arg ur_font_arg =
     (case open_background ev bg of
        Some e \<Rightarrow> Inl e
      | None \<Rightarrow>
     (case get_english_font_path (fonts ev) en_font_arg of
        Inl e \<Rightarrow> Inl e
      | Inr en_resolved \<Rightarrow>
     (case get_urdu_font_path (fonts ev) ur_font_arg of
        Inl e \<Rightarrow> Inl e
      | Inr ur_resolved \<Rightarrow>
     (case load_font (fonts ev) en_resolved (en_font_size * 2) of
        Inl e \<Rightarrow> Inl e
      | Inr en_font \<Rightarrow>
     (case load_font (fonts ev) ur_resolved (ur_font_size * 2) of
        Inl e \<Rightarrow> Inl e
      | Inr ur_font \<Rightarrow>
     (let fr = \<lparr>fr_background = bg, fr_en_font = en_font, fr_ur_font = ur_font,
                 fr_en_text = dict_get pair ''en'' (JStr []),
                 fr_ur_text = dict_get pair ''ur'' (JStr [])\<rparr>
      in case draw_caption ev fr of Some e \<Rightarrow> Inl e | None \<Rightarrow> Inr fr))))))"

text \<open>Lines 59--74 of the loop body: the two texts, their speech, the timing.\<close>

record timed =
  sg_en_tts :: tts_audio
  sg_ur_tts :: tts_audio
  sg_timing :: timing

definition schedule_segment ::
  "env \<Rightarrow> (string \<times> json) list \<Rightarrow> event list \<Rightarrow> (error + timed) \<times> event list" where
  "schedule_segment ev pair tr =
     (case generate_english_tts ev (dict_get pair ''en'' (JStr [])) of
        Inl e \<Rightarrow> (Inl e, tr)
      | Inr en_tts \<Rightarrow>
     (case generate_urdu_tts ev (dict_get pair ''ur'' (JStr [])) of
        Inl e \<Rightarrow> (Inl e, tr @ [SpeechSaved (tts_path en_tts)])
      | Inr ur_tts \<Rightarrow>
     (let tr' = tr @ [SpeechSaved (tts_path en_tts), SpeechSaved (tts_path ur_tts)] in
      case float_or_zero (float_of_str ev) (dict_get pair ''pause_after'' (JNum 0.0)) of
        Inl e \<Rightarrow> (Inl e, tr')
      | Inr pause_after \<Rightarrow>
     (case float_or_zero (float_of_str ev) (dict_get pair ''min_duration'' (JNum 0.0)) of
        Inl e \<Rightarrow> (Inl e, tr')
      | Inr min_duration \<Rightarrow>
        (Inr \<lparr>sg_en_tts = en_tts, sg_ur_tts = ur_tts,
              sg_timing = segment_timing (tts_duration en_tts) (tts_duration ur_tts)
                            pause_after min_duration\<rparr>, tr')))))"

text \<open>Lines 76--96: the frame, the picture clip, the two speech tracks, the fades.\<close>

definition make_clip ::
  "env \<Rightarrow> build_args \<Rightarrow> path \<Rightarrow> (string \<times> json) list \<Rightarrow> timed \<Rightarrow> event list
     \<Rightarrow> (error + video_clip) \<times> event list" where
  "make_clip ev args bg pair sg tr =
     (case render_caption_frame ev bg pair (english_font_path args) (urdu_font_path args) of
        Inl e \<Rightarrow> (Inl e, tr)
      | Inr frame_img \<Rightarrow>
     (case AudioFileClip ev (tts_path (sg_en_tts sg)) of
        Inl e \<Rightarrow> (Inl e, tr @ [FrameRendered])
      | Inr en_len \<Rightarrow>
     (case AudioFileClip ev (tts_path (sg_ur_tts sg)) of
        Inl e \<Rightarrow> (Inl e, tr @ [FrameRendered])
      | Inr ur_len \<Rightarrow>
     (let en_track = \<lparr>at_source = tts_path (sg_en_tts sg),
                       at_start = en_start (sg_timing sg),
                       at_duration = en_len, at_volume = 1.0\<rparr>;
          ur_track = \<lparr>at_source = tts_path (sg_ur_tts sg),
                       at_start = ur_start (sg_timing sg),
                       at_duration = ur_len, at_volume = 1.0\<rparr>;
          mixed_audio = (CompositeAudioClip [en_track, ur_track])
                          \<lparr>ac_fadein := 0.12, ac_fadeout := 0.12\<rparr>;
          img_clip = \<lparr>vc_frame = frame_img, vc_start = 0,
                       vc_duration = total_audio_duration (sg_timing sg),
                       vc_audio = None, vc_fadein = 0, vc_fadeout = 0\<rparr>;
          clip = img_clip\<lparr>vc_audio := Some mixed_audio\<rparr>
      in (Inr (clip\<lparr>vc_fadein := 0.5, vc_fadeout := 0.5\<rparr>), tr @ [FrameRendered])))))"

text \<open>The loop body (lines 57--96) and the loop over the script's entries.\<close>

definition build_segment ::
  "env \<Rightarrow> build_args \<Rightarrow> path \<Rightarrow> nat \<Rightarrow> nat \<Rightarrow> json \<Rightarrow> event list
     \<Rightarrow> (error + video_clip) \<times> event list" where
  "build_segment ev args bg n idx entry tr =
     (let tr1 = (if log_given args then tr @ [Logged (SegmentProgress idx n)] else tr) in
      case entry of
        JObj pair \<Rightarrow>
          (case schedule_segment ev pair tr1 of
             (Inl e, tr2) \<Rightarrow> (Inl e, tr2)
           | (Inr sg, tr2) \<Rightarrow> make_clip ev args bg pair sg tr2)
      | _ \<Rightarrow> (Inl (AttributeError ''get''), tr1))"

fun build_clips ::
  "env \<Rightarrow> build_args \<Rightarrow> path \<Rightarrow> nat \<Rightarrow> nat \<Rightarrow> json list \<Rightarrow> event list
     \<Rightarrow> (error + video_clip list) \<times> event list" where
  "build_clips ev args bg n idx [] tr = (Inr [], tr)"
| "build_clips ev args bg n idx (entry # rest) tr =
     (case build_segment ev args bg n idx entry tr of
        (Inl e, tr1) \<Rightarrow> (Inl e, tr1)
      | (Inr clip, tr1) \<Rightarrow>
          (case build_clips ev args bg n (Suc idx) rest tr1 of
             (Inl e, tr2) \<Rightarrow> (Inl e, tr2)
           | (Inr clips, tr2) \<Rightarrow> (Inr (clip # clips), tr2)))"

text \<open>Lines 43--52: the temporary directories and the background picture.\<close>

definition background :: "env \<Rightarrow> build_args \<Rightarrow> (error + path) \<times> event list" where
  "background ev args =
     (case ensure_temp_dirs ev of
        Some e \<Rightarrow> (Inl e, [])
      | None \<Rightarrow>
     (case (if str_truthy (background_path args)
            then prepare_background_image ev (the (background_path args))
            else save_fallback_background ev) of
        Inl e \<Rightarrow> (Inl e, [TempDirsEnsured])
      | Inr bg_final \<Rightarrow> (Inr bg_final, [TempDirsEnsured, BackgroundSaved bg_final])))"

text \<open>
  Lines 105--125, the body of the \<open>try\<close>: load the music, loop it when it is shorter
  than the video, trim it to the video's duration, set its volume, mix it in.
\<close>

definition mix_bgm :: "env \<Rightarrow> timeline \<Rightarrow> path \<Rightarrow> real \<Rightarrow> error + timeline" where
  "mix_bgm ev final p vol =
     (case AudioFileClip ev p of
        Inl e \<Rightarrow> Inl e
      | Inr d \<Rightarrow>
     (let bgm_audio = bgm_of_file p d;
          video_duration = tl_duration final
      in case (if bgm_duration bgm_audio < video_duration
               then (if bgm_duration bgm_audio = 0 then Inl ZeroDivisionError
                     else if \<not> audio_has_loop ev then Inl (AttributeError ''loop'')
                     else Inr (loop (py_int (video_duration / bgm_duration bgm_audio) + 1)
                                 bgm_audio))
               else Inr bgm_audio) of
        Inl e \<Rightarrow> Inl e
      | Inr looped \<Rightarrow>
     (case subclip 0 video_duration looped of
        Inl e \<Rightarrow> Inl e
      | Inr trimmed \<Rightarrow>
     (let bgm = volumex vol trimmed in
      Inr (case tl_audio final of
             Some a \<Rightarrow> final\<lparr>tl_audio := Some (a\<lparr>am_music := am_music a @ [bgm]\<rparr>)\<rparr>
           | None \<Rightarrow> final\<lparr>tl_audio := Some \<lparr>am_speech = [], am_music = [bgm]\<rparr>\<rparr>)))))"

text \<open>Lines 103--129: the music is optional, and a failure of the \<open>try\<close> is logged.\<close>

definition add_bgm ::
  "env \<Rightarrow> build_args \<Rightarrow> timeline \<Rightarrow> event list \<Rightarrow> timeline \<times> event list" where
  "add_bgm ev args final tr =
     (if str_truthy (bgm_path args)
      then (case mix_bgm ev final (the (bgm_path args)) (bgm_volume_arg args) of
              Inr final' \<Rightarrow> (final', tr)
            | Inl e \<Rightarrow> (final, if log_given args then tr @ [Logged (BgmWarning e)] else tr))
      else (final, tr))"

text \<open>Lines 39--100: the script, the background, the clips, their concatenation.\<close>

definition segments_timeline :: "env \<Rightarrow> build_args \<Rightarrow> (error + timeline) \<times> event list" where
  "segments_timeline ev args =
     (case load_script ev (script_path args) of
        Inl e \<Rightarrow> (Inl e, [])
      | Inr segments \<Rightarrow>
          if segments = [] then (Inl (ValueError ''Script is empty''), [])
          else (case background ev args of
                  (Inl e, tr) \<Rightarrow> (Inl e, tr)
                | (Inr bg_final, tr) \<Rightarrow>
               (case build_clips ev args bg_final (length segments) 1 segments tr of
                  (Inl e, tr1) \<Rightarrow> (Inl e, tr1)
                | (Inr clips, tr1) \<Rightarrow>
               (case concatenate_videoclips clips of
                  Inl e \<Rightarrow> (Inl e, tr1)
                | Inr final \<Rightarrow>
                    (Inr (final\<lparr>tl_fps := Some FPS,
                                 tl_size := (VIDEO_WIDTH, VIDEO_HEIGHT)\<rparr>), tr1)))))"

text \<open>Lines 39--129: everything up to the timeline that is handed to the encoder.\<close>

definition assemble :: "env \<Rightarrow> build_args \<Rightarrow> (error + timeline) \<times> event list" where
  "assemble ev args =
     (case segments_timeline ev args of
        (Inl e, tr) \<Rightarrow> (Inl e, tr)
      | (Inr final, tr) \<Rightarrow>
          (case add_bgm ev args final tr of (final', tr') \<Rightarrow> (Inr final', tr')))"

text \<open>
  \<open>build_video\<close>: the result is the output path or the exception, with what the run
  did. Lines 131--138 give the encoder \<open>output_path\<close> itself.
\<close>

definition build_video :: "env \<Rightarrow> build_args \<Rightarrow> (error + path) \<times> event list" where
  "build_video ev args =
     (case assemble ev args of
        (Inl e, tr) \<Rightarrow> (Inl e, tr)
      | (Inr final, tr) \<Rightarrow>
          (case write_videofile ev final (output_path args) of
             Encoded \<Rightarrow> (Inr (output_path args), tr @ [OutputFile (output_path args) Complete])
           | EncodeFailed e created \<Rightarrow>
               (Inl e, if created then tr @ [OutputFile (output_path args) Partial] else tr)))"

section \<open>Text wrapping (urdu\_text.py)\<close>

text \<open>
  Modelled from the spec: the module \<open>urdu_text\<close> with \<open>wrap_text_ltr\<close> and
  \<open>wrap_text_rtl\<close> is imported by caption\_renderer.py and is not among the sources.
  The specification describes a greedy wrap: the text is cut into tokens at runs of
  white space; tokens are put on the current line while the line's measured width
  stays at most \<open>max_width\<close>; when the next token would exceed it, a new line starts;
  a token wider than \<open>max_width\<close> is put on a line of its own; empty text gives no
  line. Wrapping only decides where to break, so both directions break alike. The
  measure of the font is the parameter \<open>width\<close>.
\<close>

text \<open>
  Modelled from the spec: the tokens of the missing \<open>urdu_text\<close> module are the
  maximal runs of characters other than white space.
\<close>

definition is_space :: "char \<Rightarrow> bool" where
  "is_space c = (c \<in> set [CHR '' '', CHR 0x09, CHR 0x0A, CHR 0x0B, CHR 0x0C, CHR 0x0D])"

fun split_ws :: "string \<Rightarrow> string \<Rightarrow> string list" where
  "split_ws cur [] = (if cur = [] then [] else [cur])"
| "split_ws cur (c # cs) =
     (if is_space c then (if cur = [] then split_ws [] cs else cur # split_ws [] cs)
      else split_ws (cur @ [c]) cs)"

definition tokens :: "string \<Rightarrow> string list" where
  "tokens text = split_ws [] text"

text \<open>
  Modelled from the spec: a line of the missing \<open>urdu_text\<close> module is the list of its
  tokens; it is drawn with single spaces between them.
\<close>

fun join_line :: "string list \<Rightarrow> string" where
  "join_line [] = []"
| "join_line [t] = t"
| "join_line (t # ts) = t @ '' '' @ join_line ts"

text \<open>
  Modelled from the spec: the greedy loop of the missing \<open>wrap_text_ltr\<close> and
  \<open>wrap_text_rtl\<close>, with the current line \<open>cur\<close> and the tokens still to place.
\<close>

fun greedy :: "(string \<Rightarrow> nat) \<Rightarrow> nat \<Rightarrow> string list \<Rightarrow> string list \<Rightarrow> string list list" where
  "greedy width max_width cur [] = (if cur = [] then [] else [cur])"
| "greedy width max_width cur (t # ts) =
     (if cur = [] then greedy width max_width [t] ts
      else if width (join_line (cur @ [t])) \<le> max_width
        then greedy width max_width (cur @ [t]) ts
      else cur # greedy width max_width [t] ts)"

text \<open>
  Modelled from the spec: the missing \<open>wrap_text_ltr\<close> and \<open>wrap_text_rtl\<close>
  themselves, which return the lines as strings.
\<close>

definition wrap_lines :: "(string \<Rightarrow> nat) \<Rightarrow> string \<Rightarrow> nat \<Rightarrow> string list list" where
  "wrap_lines width text max_width = greedy width max_width [] (tokens text)"

definition wrap_text_ltr :: "(string \<Rightarrow> nat) \<Rightarrow> string \<Rightarrow> nat \<Rightarrow> string list" where
  "wrap_text_ltr width text max_width = map join_line (wrap_lines width text max_width)"

definition wrap_text_rtl :: "(string \<Rightarrow> nat) \<Rightarrow> string \<Rightarrow> nat \<Rightarrow> string list" where
  "wrap_text_rtl width text max_width = map join_line (wrap_lines width text max_width)"

section \<open>Notions used in the statements\<close>

text \<open>
  Clips that follow one another from time \<open>t\<close> to time \<open>e\<close>: each starts where the
  one before it ends.
\<close>

fun contiguous :: "real \<Rightarrow> video_clip list \<Rightarrow> real \<Rightarrow> bool" where
  "contiguous t [] e = (t = e)"
| "contiguous t (c # cs) e = (vc_start c = t \<and> contiguous (t + vc_duration c) cs e)"

definition faded :: "video_clip \<Rightarrow> bool" where
  "faded c = (vc_fadein c = 0.5 \<and> vc_fadeout c = 0.5)"

text \<open>The total duration the loop body computes for a script entry, if it gets that far.\<close>

definition segment_total :: "env \<Rightarrow> json \<Rightarrow> real option" where
  "segment_total ev entry =
     (case entry of
        JObj pair \<Rightarrow>
          (case fst (schedule_segment ev pair []) of
             Inr sg \<Rightarrow> Some (total_audio_duration (sg_timing sg))
           | Inl e \<Rightarrow> None)
      | _ \<Rightarrow> None)"

text \<open>The two texts of a script entry, and the two texts drawn on a clip's frame.\<close>

fun entry_texts :: "json \<Rightarrow> json \<times> json" where
  "entry_texts (JObj pair) = (dict_get pair ''en'' (JStr []), dict_get pair ''ur'' (JStr []))"
| "entry_texts v = (JNull, JNull)"

definition clip_texts :: "video_clip \<Rightarrow> json \<times> json" where
  "clip_texts c = (fr_en_text (vc_frame c), fr_ur_text (vc_frame c))"

text \<open>\<open>isinstance(data, list)\<close>\<close>

fun is_list :: "json \<Rightarrow> bool" where
  "is_list (JArr xs) = True"
| "is_list v = False"


fun is_output :: "event \<Rightarrow> bool" where
  "is_output (OutputFile p st) = True"
| "is_output e = False"

section \<open>A concrete environment\<close>

text \<open>
  One machine to run the model on: a Windows font directory that holds Arial only, no
  font configuration, four script files, speech of 1.0 s and 1.2 s (none for empty
  text), one music file of 3 s and one that does not decode, an encoder that succeeds.
\<close>

definition posix_basename :: "path \<Rightarrow> string" where
  "posix_basename p = rev (takeWhile (\<lambda>c. c \<noteq> CHR ''/'') (rev p))"

definition demo_fonts :: font_system where
  "demo_fonts =
     \<lparr>fonts_config_file = None,
      local_fonts_dir = ''fonts'',
      windows_fonts_dir = ''C:/Windows/Fonts'',
      isdir = (\<lambda>p. p = ''C:/Windows/Fonts''),
      isfile = (\<lambda>p. p = ''C:/Windows/Fonts/Arial.ttf''),
      walk = (\<lambda>p. if p = ''C:/Windows/Fonts''
                   then [(''C:/Windows/Fonts'', [''Arial.ttf'', ''notes.txt''])] else []),
      path_join = (\<lambda>d f. d @ ''/'' @ f),
      basename = posix_basename,
      truetype = (\<lambda>p sz. None)\<rparr>"

text \<open>
  The same fonts with a configuration file whose Urdu font does not exist, and with a
  font library that cannot read any file.
\<close>

definition misconfigured_fonts :: font_system where
  "misconfigured_fonts =
     demo_fonts\<lparr>fonts_config_file :=
       Some (Inr (JObj [(''urdu_font_path'', JStr ''fonts/NotoNastaliqUrdu.ttf'')]))\<rparr>"

definition unreadable_fonts :: font_system where
  "unreadable_fonts =
     demo_fonts\<lparr>truetype := (\<lambda>p sz. Some (LibraryError ''OSError: unknown file format''))\<rparr>"

definition demo_env :: env where
  "demo_env =
     \<lparr>fonts = demo_fonts,
      read_json = (\<lambda>p.
        if p = ''script.json''
          then Inr (JArr [JObj [(''en'', JStr ''Hi''), (''ur'', JStr ''salam'')],
                          JObj [(''en'', JStr ''Bye''), (''ur'', JStr ''khuda hafiz''),
                                (''min_duration'', JNum 5)]])
        else if p = ''blank.json'' then Inr (JArr [JObj []])
        else if p = ''empty.json'' then Inr (JArr [])
        else if p = ''object.json'' then Inr (JObj [(''en'', JStr ''Hi'')])
        else Inl (LibraryError ''FileNotFoundError'')),
      float_of_str = (\<lambda>s. None),
      ensure_temp_dirs = None,
      prepare_background_image = (\<lambda>p. Inr ''temp/images/bg_final.jpg''),
      save_fallback_background = Inr ''temp/images/fallback_bg.jpg'',
      generate_english_tts = (\<lambda>t.
        Inr \<lparr>tts_path = ''temp/audio/en.mp3'',
             tts_duration = (if t = JStr [] then 0 else 1.0)\<rparr>),
      generate_urdu_tts = (\<lambda>t.
        Inr \<lparr>tts_path = ''temp/audio/ur.mp3'',
             tts_duration = (if t = JStr [] then 0 else 1.2)\<rparr>),
      open_background = (\<lambda>p. None),
      draw_caption = (\<lambda>fr. None),
      AudioFileClip = (\<lambda>p.
        if p = ''corrupt.mp3'' then Inl (LibraryError ''OSError'')
        else if p = ''music.mp3'' then Inr 3
        else Inr 1),
      audio_has_loop = True,
      write_videofile = (\<lambda>final p. Encoded)\<rparr>"

text \<open>
  The same machine with a speech service that refuses empty text, and with a disk that
  fills up while the encoder writes.
\<close>

definition strict_tts_env :: env where
  "strict_tts_env =
     demo_env\<lparr>generate_english_tts := (\<lambda>t.
        if t = JStr [] then Inl (LibraryError ''NoAudioReceived'')
        else Inr \<lparr>tts_path = ''temp/audio/en.mp3'', tts_duration = 1.0\<rparr>)\<rparr>"

definition full_disk_env :: env where
  "full_disk_env =
     demo_env\<lparr>write_videofile := (\<lambda>final p.
        EncodeFailed (LibraryError ''OSError: No space left on device'') True)\<rparr>"

definition demo_args :: build_args where
  "demo_args =
     \<lparr>script_path = ''script.json'', output_path = ''output.mp4'',
      background_path = None, english_font_path = None, urdu_font_path = None,
      bgm_path = None, bgm_volume_arg = 0.1, log_given = False\<rparr>"

section \<open>Properties of the segment timing\<close>

lemma ur_start_segment_timing:
  "ur_start (segment_timing e u p m) = e + 0.2"
  by (simp add: segment_timing_def teaching_gap_def Let_def)

lemma total_segment_timing:
  "total_audio_duration (segment_timing e u p m) = max (e + 0.2 + u + p) m"
  by (simp add: segment_timing_def teaching_gap_def Let_def max_def)

text \<open>
  C1. For non-negative durations, pause and floor, the Urdu speech starts at
  \<open>en_duration + 0.2\<close> and the segment lasts
  \<open>max (ur_start + ur_duration + pause_after) min_duration\<close>. The scenario of the
  specification: durations 1.0 and 1.2 with no pause and no floor give a start of 1.2 and
  a total of 2.4; a floor of 5.0 gives a total of 5.0 and leaves the start at 1.2.
\<close>

theorem segment_timing_exact:
  assumes "0 \<le> e" and "0 \<le> u" and "0 \<le> p" and "0 \<le> m"
  shows "ur_start (segment_timing e u p m) = e + 0.2
       \<and> total_audio_duration (segment_timing e u p m)
           = max (ur_start (segment_timing e u p m) + u + p) m
       \<and> ur_start (segment_timing 1.0 1.2 0 0) = 1.2
       \<and> total_audio_duration (segment_timing 1.0 1.2 0 0) = 2.4
       \<and> ur_start (segment_timing 1.0 1.2 0 5.0) = 1.2
       \<and> total_audio_duration (segment_timing 1.0 1.2 0 5.0) = 5.0"
  by (simp add: ur_start_segment_timing total_segment_timing)

theorem segment_timing_exact_witness:
  "(0::real) \<le> 3 \<and> (0::real) \<le> 2 \<and> (0::real) \<le> 1 \<and> (0::real) \<le> 4
   \<and> ur_start (segment_timing 3 2 1 4) = 3.2
   \<and> total_audio_duration (segment_timing 3 2 1 4) = 6.2"
  using segment_timing_exact [of 3 2 1 4] by simp

text \<open>
  C2 as stated: when both speech durations are 0 the total would be
  \<open>max pause_after min_duration\<close>. The code adds the teaching gap before the Urdu
  speech whatever the durations are, so with no pause and no floor the total is 0.2, not 0.
\<close>

theorem degenerate_total_counterexample:
  "total_audio_duration (segment_timing 0 0 0 0) \<noteq> max 0 0"
  by (simp add: total_segment_timing)

text \<open>
  C2, amended. When both speech durations are 0, the total duration is
  \<open>max (0.2 + pause_after) min_duration\<close>; and for all non-negative inputs the total
  duration is at least 0.2, hence never zero or negative.
\<close>

theorem degenerate_total:
  assumes "0 \<le> e" and "0 \<le> u" and "0 \<le> p" and "0 \<le> m"
  shows "total_audio_duration (segment_timing 0 0 p m) = max (0.2 + p) m
       \<and> 0.2 \<le> total_audio_duration (segment_timing e u p m)
       \<and> 0 < total_audio_duration (segment_timing e u p m)"
  using assms by (simp add: total_segment_timing max_def)

theorem degenerate_total_witness:
  "(0::real) \<le> 0 \<and> (0::real) \<le> 3
   \<and> total_audio_duration (segment_timing 0 0 3 0) = 3.2
   \<and> 0 < total_audio_duration (segment_timing 0 0 3 0)"
  using degenerate_total [of 0 0 3 0] by simp

text \<open>
  C10. For non-negative inputs, raising any one of the four inputs by \<open>d \<ge> 0\<close> with the
  other three fixed does not lower the total duration, and the Urdu start offset is the
  same whatever the Urdu duration, the pause and the floor are.
\<close>

theorem segment_timing_mono:
  assumes "0 \<le> e" and "0 \<le> u" and "0 \<le> p" and "0 \<le> m" and "0 \<le> d"
  shows "total_audio_duration (segment_timing e u p m)
           \<le> total_audio_duration (segment_timing (e + d) u p m)
       \<and> total_audio_duration (segment_timing e u p m)
           \<le> total_audio_duration (segment_timing e (u + d) p m)
       \<and> total_audio_duration (segment_timing e u p m)
           \<le> total_audio_duration (segment_timing e u (p + d) m)
       \<and> total_audio_duration (segment_timing e u p m)
           \<le> total_audio_duration (segment_timing e u p (m + d))
       \<and> ur_start (segment_timing e u' p' m') = ur_start (segment_timing e u p m)"
  using assms by (simp add: total_segment_timing ur_start_segment_timing max_def)

theorem segment_timing_mono_witness:
  "(0::real) \<le> 1 \<and> (0::real) \<le> 2 \<and> (0::real) \<le> 3
   \<and> total_audio_duration (segment_timing 1 2 0 3)
       \<le> total_audio_duration (segment_timing (1 + 3) 2 0 3)
   \<and> total_audio_duration (segment_timing 1 2 0 3)
       \<le> total_audio_duration (segment_timing 1 2 0 (3 + 3))
   \<and> ur_start (segment_timing 1 7 8 9) = ur_start (segment_timing 1 2 0 3)"
  using segment_timing_mono [of 1 2 0 3 3 7 8 9] by simp

section \<open>Properties of the render\<close>

subsection \<open>The concrete environment, evaluated\<close>

lemma demo_candidates: "candidate_font_paths demo_fonts = [''C:/Windows/Fonts/Arial.ttf'']"
  by (simp add: candidate_font_paths_def font_files_in_def demo_fonts_def endswith_def
      lower_def lower_char_def)

lemma demo_lower_map:
  "lower_map demo_fonts [''C:/Windows/Fonts/Arial.ttf'']
     = [(''arial.ttf'', ''C:/Windows/Fonts/Arial.ttf'')]"
  by (simp add: lower_map_def demo_fonts_def posix_basename_def lower_def lower_char_def)

lemma demo_config: "load_fonts_config demo_fonts = JObj []"
  by (simp add: load_fonts_config_def demo_fonts_def)

lemma demo_urdu_font:
  "get_urdu_font_path demo_fonts None = Inr (Some ''C:/Windows/Fonts/Arial.ttf'')"
  by (simp add: get_urdu_font_path_def demo_config dict_get_def
      find_font_by_preferred_names_def demo_candidates demo_lower_map PREFERRED_FONTS_URDU_def
      lower_def lower_char_def)

lemma demo_english_font:
  "get_english_font_path demo_fonts None = Inr (Some ''C:/Windows/Fonts/Arial.ttf'')"
  by (simp add: get_english_font_path_def demo_config dict_get_def
      find_font_by_preferred_names_def demo_candidates demo_lower_map PREFERRED_FONTS_EN_def
      lower_def lower_char_def)

lemma demo_load_font:
  "load_font demo_fonts (Some ''C:/Windows/Fonts/Arial.ttf'') sz
     = Inr \<lparr>font_file = ''C:/Windows/Fonts/Arial.ttf'', font_size = sz\<rparr>"
  by (simp add: load_font_def demo_fonts_def)

lemma demo_frame:
  assumes "fonts ev = demo_fonts" and "open_background ev = (\<lambda>p. None)"
    and "draw_caption ev = (\<lambda>fr. None)"
  shows "render_caption_frame ev bg pair None None
     = Inr \<lparr>fr_background = bg,
            fr_en_font = \<lparr>font_file = ''C:/Windows/Fonts/Arial.ttf'', font_size = en_font_size * 2\<rparr>,
            fr_ur_font = \<lparr>font_file = ''C:/Windows/Fonts/Arial.ttf'', font_size = ur_font_size * 2\<rparr>,
            fr_en_text = dict_get pair ''en'' (JStr []),
            fr_ur_text = dict_get pair ''ur'' (JStr [])\<rparr>"
  using assms
  by (simp add: render_caption_frame_def demo_urdu_font demo_english_font demo_load_font)

lemma demo_env_frame:
  "render_caption_frame demo_env bg pair None None
     = Inr \<lparr>fr_background = bg,
            fr_en_font = \<lparr>font_file = ''C:/Windows/Fonts/Arial.ttf'', font_size = en_font_size * 2\<rparr>,
            fr_ur_font = \<lparr>font_file = ''C:/Windows/Fonts/Arial.ttf'', font_size = ur_font_size * 2\<rparr>,
            fr_en_text = dict_get pair ''en'' (JStr []),
            fr_ur_text = dict_get pair ''ur'' (JStr [])\<rparr>"
  by (rule demo_frame) (simp_all add: demo_env_def)

lemmas run_defs = build_video_def assemble_def segments_timeline_def load_script_def
  background_def build_segment_def schedule_segment_def make_clip_def add_bgm_def mix_bgm_def
  concatenate_videoclips_def placed_audio_def CompositeAudioClip_def
  dict_get_def float_or_zero_def segment_timing_def teaching_gap_def
  bgm_of_file_def loop_def subclip_def volumex_def py_int_def Let_def


subsection \<open>The timeline\<close>

lemma fold_durations:
  "fold (\<lambda>c t. t + vc_duration c) cs t = t + sum_list (map vc_duration cs)"
  by (induction cs arbitrary: t) simp_all

lemma some_durations_place:
  "map (\<lambda>c. Some (vc_duration c)) (place t cs) = map (\<lambda>c. Some (vc_duration c)) cs"
  by (induction cs arbitrary: t) simp_all

lemma durations_place: "map vc_duration (place t cs) = map vc_duration cs"
  by (induction cs arbitrary: t) simp_all

lemma contiguous_place: "contiguous t (place t cs) (t + sum_list (map vc_duration cs))"
  by (induction cs arbitrary: t) (simp_all add: add.assoc [symmetric])

lemma faded_place: "list_all faded (place t cs) = list_all faded cs"
  by (induction cs arbitrary: t) (simp_all add: faded_def)

lemma texts_place: "map clip_texts (place t cs) = map clip_texts cs"
  by (induction cs arbitrary: t) (simp_all add: clip_texts_def)

lemma schedule_segment_result:
  "fst (schedule_segment ev pair tr) = fst (schedule_segment ev pair [])"
  by (simp add: schedule_segment_def Let_def split: sum.splits)

lemma render_caption_frame_texts:
  "render_caption_frame ev bg pair a b = Inr fr \<Longrightarrow>
     fr_en_text fr = dict_get pair ''en'' (JStr [])
     \<and> fr_ur_text fr = dict_get pair ''ur'' (JStr [])"
  by (auto simp: render_caption_frame_def Let_def split: sum.splits option.splits)

lemma make_clip_duration:
  "make_clip ev args bg pair sg tr = (Inr clip, tr') \<Longrightarrow>
     vc_duration clip = total_audio_duration (sg_timing sg) \<and> faded clip
     \<and> clip_texts clip = entry_texts (JObj pair)"
  by (auto simp: make_clip_def faded_def clip_texts_def Let_def
      dest: render_caption_frame_texts split: sum.splits)

text \<open>The timing of a scheduled segment is the timing of lines 65--74.\<close>

lemma schedule_segment_timing:
  assumes "schedule_segment ev pair tr = (Inr sg, tr')"
  shows "\<exists>pause_after min_duration.
           float_or_zero (float_of_str ev) (dict_get pair ''pause_after'' (JNum 0.0))
             = Inr pause_after
         \<and> float_or_zero (float_of_str ev) (dict_get pair ''min_duration'' (JNum 0.0))
             = Inr min_duration
         \<and> generate_english_tts ev (dict_get pair ''en'' (JStr [])) = Inr (sg_en_tts sg)
         \<and> generate_urdu_tts ev (dict_get pair ''ur'' (JStr [])) = Inr (sg_ur_tts sg)
         \<and> sg_timing sg = segment_timing (tts_duration (sg_en_tts sg))
                               (tts_duration (sg_ur_tts sg)) pause_after min_duration"
  using assms by (auto simp: schedule_segment_def Let_def split: sum.splits)

lemma build_segment_duration:
  assumes "build_segment ev args bg n idx entry tr = (Inr clip, tr')"
  shows "segment_total ev entry = Some (vc_duration clip) \<and> faded clip
       \<and> clip_texts clip = entry_texts entry"
proof (cases entry)
  case (JObj pair)
  let ?tr1 = "if log_given args then tr @ [Logged (SegmentProgress idx n)] else tr"
  obtain r tr2 where s: "schedule_segment ev pair ?tr1 = (r, tr2)"
    by (cases "schedule_segment ev pair ?tr1")
  with assms JObj obtain sg where r: "r = Inr sg"
    and m: "make_clip ev args bg pair sg tr2 = (Inr clip, tr')"
    by (cases r) (auto simp: build_segment_def Let_def)
  have "fst (schedule_segment ev pair []) = Inr sg"
    using s r schedule_segment_result [of ev pair ?tr1] by simp
  then show ?thesis
    using make_clip_duration [OF m] JObj by (simp add: segment_total_def)
qed (use assms in \<open>auto simp: build_segment_def Let_def\<close>)

lemma build_clips_durations:
  "build_clips ev args bg n idx segs tr = (Inr clips, tr') \<Longrightarrow>
     map (\<lambda>c. Some (vc_duration c)) clips = map (segment_total ev) segs
     \<and> list_all faded clips
     \<and> map clip_texts clips = map entry_texts segs"
proof (induction segs arbitrary: idx tr clips)
  case Nil
  then show ?case by simp
next
  case (Cons entry rest)
  then show ?case
    by (auto split: prod.splits sum.splits dest: build_segment_duration)
qed

lemma segments_timeline_shape:
  assumes "segments_timeline ev args = (Inr final, tr)"
  obtains segments bg tr0 clips where
    "load_script ev (script_path args) = Inr segments" and "segments \<noteq> []"
    and "background ev args = (Inr bg, tr0)"
    and "build_clips ev args bg (length segments) 1 segments tr0 = (Inr clips, tr)"
    and "clips \<noteq> []"
    and "tl_clips final = place 0 clips"
    and "tl_duration final = sum_list (map vc_duration clips)"
    and "tl_audio final = (if placed_audio (place 0 clips) = [] then None
                           else Some \<lparr>am_speech = placed_audio (place 0 clips), am_music = []\<rparr>)"
proof -
  from assms obtain segments where l: "load_script ev (script_path args) = Inr segments"
    by (cases "load_script ev (script_path args)") (auto simp: segments_timeline_def)
  from assms l have ne: "segments \<noteq> []"
    by (auto simp: segments_timeline_def split: if_splits)
  obtain rb tr0 where b: "background ev args = (rb, tr0)" by (cases "background ev args")
  with assms l ne obtain bg where rb: "rb = Inr bg"
    by (cases rb) (auto simp: segments_timeline_def)
  obtain rc trc where c: "build_clips ev args bg (length segments) 1 segments tr0 = (rc, trc)"
    by (cases "build_clips ev args bg (length segments) 1 segments tr0")
  with assms l ne b rb obtain clips where rc: "rc = Inr clips"
    by (cases rc) (auto simp: segments_timeline_def)
  from assms l ne b rb c rc obtain final0 where
    f0: "concatenate_videoclips clips = Inr final0"
    and f: "final = final0\<lparr>tl_fps := Some FPS, tl_size := (VIDEO_WIDTH, VIDEO_HEIGHT)\<rparr>"
    and t: "tr = trc"
    by (cases "concatenate_videoclips clips") (auto simp: segments_timeline_def)
  from f0 have cne: "clips \<noteq> []"
    by (auto simp: concatenate_videoclips_def split: if_splits)
  from f0 cne have "final0 = \<lparr>tl_clips = place 0 clips,
      tl_duration = fold (\<lambda>c t. t + vc_duration c) clips 0,
      tl_audio = (if placed_audio (place 0 clips) = [] then None
                  else Some \<lparr>am_speech = placed_audio (place 0 clips), am_music = []\<rparr>),
      tl_fps = None, tl_size = (VIDEO_WIDTH, VIDEO_HEIGHT)\<rparr>"
    by (simp add: concatenate_videoclips_def Let_def)
  with f have "tl_clips final = place 0 clips"
    and "tl_duration final = sum_list (map vc_duration clips)"
    and "tl_audio final = (if placed_audio (place 0 clips) = [] then None
                           else Some \<lparr>am_speech = placed_audio (place 0 clips), am_music = []\<rparr>)"
    by (simp_all add: fold_durations)
  with that l ne b rb c rc t cne show thesis by blast
qed

lemma add_bgm_keeps:
  "add_bgm ev args final tr = (final', tr') \<Longrightarrow>
     tl_clips final' = tl_clips final \<and> tl_duration final' = tl_duration final"
  by (auto simp: add_bgm_def mix_bgm_def Let_def split: if_splits sum.splits option.splits)

lemma assemble_shape:
  assumes "assemble ev args = (Inr final, tr)"
  obtains final0 tr0 where "segments_timeline ev args = (Inr final0, tr0)"
    and "add_bgm ev args final0 tr0 = (final, tr)"
proof -
  obtain r tr0 where s: "segments_timeline ev args = (r, tr0)"
    by (cases "segments_timeline ev args")
  with assms obtain final0 where "r = Inr final0"
    by (cases r) (auto simp: assemble_def)
  with s assms that show thesis
    by (auto simp: assemble_def split: prod.splits)
qed

text \<open>
  C3. When the render gets as far as the timeline, the script has at least one entry,
  the timeline holds one clip per entry, in the order of the script (the clips show the
  entries' texts, one after the other), each lasting the total duration computed for
  its entry and carrying the 0.5 s fades; the clips follow
  one another from 0 to the timeline's duration without gap or overlap; and the
  timeline's duration is the sum of the clips' durations.
\<close>

theorem timeline_duration_is_sum:
  assumes "assemble ev args = (Inr final, tr)"
      and "load_script ev (script_path args) = Inr segments"
  shows "segments \<noteq> []
       \<and> map clip_texts (tl_clips final) = map entry_texts segments
       \<and> map (\<lambda>c. Some (vc_duration c)) (tl_clips final) = map (segment_total ev) segments
       \<and> tl_duration final = sum_list (map vc_duration (tl_clips final))
       \<and> contiguous 0 (tl_clips final) (tl_duration final)
       \<and> list_all faded (tl_clips final)"
proof -
  from assms(1) obtain final0 tr0 where s: "segments_timeline ev args = (Inr final0, tr0)"
    and a: "add_bgm ev args final0 tr0 = (final, tr)"
    by (rule assemble_shape)
  from s obtain segs bg trb clips where
    l: "load_script ev (script_path args) = Inr segs" and ne: "segs \<noteq> []"
    and c: "build_clips ev args bg (length segs) 1 segs trb = (Inr clips, tr0)"
    and p: "tl_clips final0 = place 0 clips"
    and d: "tl_duration final0 = sum_list (map vc_duration clips)"
    by (rule segments_timeline_shape)
  from l assms(2) have segs: "segs = segments" by simp
  from add_bgm_keeps [OF a] p d have k: "tl_clips final = place 0 clips"
    "tl_duration final = sum_list (map vc_duration clips)"
    by simp_all
  from build_clips_durations [OF c] have
    m: "map (\<lambda>c. Some (vc_duration c)) clips = map (segment_total ev) segments"
    and fd: "list_all faded clips"
    and tx: "map clip_texts clips = map entry_texts segments"
    by (simp_all add: segs)
  show ?thesis
    using ne segs k m fd tx contiguous_place [of 0 clips]
    by (simp add: durations_place some_durations_place faded_place texts_place)
qed

lemma demo_script:
  "load_script demo_env (script_path demo_args)
     = Inr [JObj [(''en'', JStr ''Hi''), (''ur'', JStr ''salam'')],
            JObj [(''en'', JStr ''Bye''), (''ur'', JStr ''khuda hafiz''),
                  (''min_duration'', JNum 5)]]"
  by (simp add: load_script_def demo_env_def demo_args_def)

lemma demo_assembles:
  "\<exists>final tr. assemble demo_env demo_args = (Inr final, tr) \<and> tl_duration final = 7.4"
  by (simp add: run_defs demo_env_frame [unfolded demo_env_def] demo_env_def demo_args_def)

text \<open>The script of two entries: clips of 2.4 s and 5 s.\<close>

theorem timeline_duration_is_sum_witness:
  "\<exists>final tr. assemble demo_env demo_args = (Inr final, tr)
     \<and> map (\<lambda>c. Some (vc_duration c)) (tl_clips final) = [Some 2.4, Some 5]
     \<and> tl_duration final = sum_list (map vc_duration (tl_clips final))
     \<and> contiguous 0 (tl_clips final) (tl_duration final)"
proof -
  obtain final tr where a: "assemble demo_env demo_args = (Inr final, tr)"
    using demo_assembles by blast
  have t: "map (segment_total demo_env)
             [JObj [(''en'', JStr ''Hi''), (''ur'', JStr ''salam'')],
              JObj [(''en'', JStr ''Bye''), (''ur'', JStr ''khuda hafiz''),
                    (''min_duration'', JNum 5)]] = [Some 2.4, Some 5]"
    by (simp add: segment_total_def run_defs demo_env_def)
  from timeline_duration_is_sum [OF a demo_script] a t show ?thesis
    by auto
qed


subsection \<open>Background music\<close>


text \<open>
  Where the library has no \<open>loop\<close> for audio clips, music shorter than the timeline
  makes line 112 raise, and \<open>add_bgm\<close> goes on without music.
\<close>

lemma mix_bgm_without_loop:
  assumes "AudioFileClip ev p = Inr d" and "0 < d" and "d < tl_duration final"
    and "\<not> audio_has_loop ev"
  shows "mix_bgm ev final p vol = Inl (AttributeError ''loop'')"
  using assms by (simp add: mix_bgm_def bgm_of_file_def Let_def)







subsection \<open>Independence of the music argument\<close>

lemma make_clip_bgm_path:
  "make_clip ev (args\<lparr>bgm_path := x\<rparr>) bg pair sg tr = make_clip ev args bg pair sg tr"
  by (simp add: make_clip_def)

lemma build_segment_bgm_path:
  "build_segment ev (args\<lparr>bgm_path := x\<rparr>) bg n idx entry tr
     = build_segment ev args bg n idx entry tr"
  by (cases entry) (simp_all add: build_segment_def make_clip_bgm_path Let_def
      split: prod.splits sum.splits)

lemma build_clips_bgm_path:
  "build_clips ev (args\<lparr>bgm_path := x\<rparr>) bg n idx segs tr = build_clips ev args bg n idx segs tr"
  by (induction segs arbitrary: idx tr)
    (simp_all add: build_segment_bgm_path split: prod.splits sum.splits)

lemma background_bgm_path: "background ev (args\<lparr>bgm_path := x\<rparr>) = background ev args"
  by (simp add: background_def split: option.splits)

lemma segments_timeline_bgm_path:
  "segments_timeline ev (args\<lparr>bgm_path := x\<rparr>) = segments_timeline ev args"
  by (simp add: segments_timeline_def background_bgm_path build_clips_bgm_path
      cong: sum.case_cong if_cong prod.case_cong)

lemma assemble_without_bgm:
  "assemble ev (args\<lparr>bgm_path := None\<rparr>) = segments_timeline ev args"
  by (simp add: assemble_def segments_timeline_bgm_path add_bgm_def
      split: prod.splits sum.splits)

lemma assemble_bgm_failure:
  assumes "bgm_path args = Some p" and "p \<noteq> []" and "AudioFileClip ev p = Inl e"
  shows "assemble ev args =
     (fst (segments_timeline ev args),
      snd (segments_timeline ev args)
        @ (if log_given args \<and> \<not> isl (fst (segments_timeline ev args))
           then [Logged (BgmWarning e)] else []))"
  using assms
  by (simp add: assemble_def add_bgm_def mix_bgm_def split: prod.splits sum.splits)

text \<open>
  C5, amended. When the supplied music file fails to load, the timeline and the result
  of \<open>build_video\<close> are those of the same call without music: the render is not
  aborted and the speech audio is unchanged. If a \<open>log\<close> callback was passed, one
  warning is logged after all that the run without music does before encoding; if none
  was passed, nothing is recorded.
\<close>

theorem bgm_failure_not_fatal:
  assumes "bgm_path args = Some p" and "p \<noteq> []" and "AudioFileClip ev p = Inl e"
  shows "fst (assemble ev args) = fst (assemble ev (args\<lparr>bgm_path := None\<rparr>))
       \<and> fst (build_video ev args) = fst (build_video ev (args\<lparr>bgm_path := None\<rparr>))
       \<and> snd (assemble ev args) =
           snd (assemble ev (args\<lparr>bgm_path := None\<rparr>))
             @ (if log_given args \<and> \<not> isl (fst (assemble ev (args\<lparr>bgm_path := None\<rparr>)))
                then [Logged (BgmWarning e)] else [])"
proof -
  have 1: "fst (assemble ev args) = fst (assemble ev (args\<lparr>bgm_path := None\<rparr>))"
    by (simp add: assemble_bgm_failure [OF assms] assemble_without_bgm)
  have 2: "snd (assemble ev args) =
           snd (assemble ev (args\<lparr>bgm_path := None\<rparr>))
             @ (if log_given args \<and> \<not> isl (fst (assemble ev (args\<lparr>bgm_path := None\<rparr>)))
                then [Logged (BgmWarning e)] else [])"
    by (simp add: assemble_bgm_failure [OF assms] assemble_without_bgm)
  have 3: "fst (build_video ev args) = fst (build_video ev (args\<lparr>bgm_path := None\<rparr>))"
    using 1 by (cases "assemble ev args"; cases "assemble ev (args\<lparr>bgm_path := None\<rparr>)")
      (auto simp: build_video_def split: sum.splits sink_result.splits)
  from 1 2 3 show ?thesis by blast
qed

lemma corrupt_run:
  "build_video demo_env (demo_args\<lparr>bgm_path := Some ''corrupt.mp3'', log_given := lg\<rparr>) =
     (Inr ''output.mp4'',
      [TempDirsEnsured, BackgroundSaved ''temp/images/fallback_bg.jpg'']
      @ (if lg then [Logged (SegmentProgress 1 2)] else [])
      @ [SpeechSaved ''temp/audio/en.mp3'', SpeechSaved ''temp/audio/ur.mp3'', FrameRendered]
      @ (if lg then [Logged (SegmentProgress 2 2)] else [])
      @ [SpeechSaved ''temp/audio/en.mp3'', SpeechSaved ''temp/audio/ur.mp3'', FrameRendered]
      @ (if lg then [Logged (BgmWarning (LibraryError ''OSError''))] else [])
      @ [OutputFile ''output.mp4'' Complete])"
  by (simp add: run_defs demo_env_frame [unfolded demo_env_def] demo_env_def demo_args_def)

text \<open>The music file that does not decode, with a \<open>log\<close> callback.\<close>

theorem bgm_failure_not_fatal_witness:
  "bgm_path (demo_args\<lparr>bgm_path := Some ''corrupt.mp3'', log_given := True\<rparr>) = Some ''corrupt.mp3''
   \<and> AudioFileClip demo_env ''corrupt.mp3'' = Inl (LibraryError ''OSError'')
   \<and> fst (build_video demo_env (demo_args\<lparr>log_given := True\<rparr>)) = Inr ''output.mp4''
   \<and> fst (build_video demo_env (demo_args\<lparr>bgm_path := Some ''corrupt.mp3'', log_given := True\<rparr>))
       = Inr ''output.mp4''"
proof -
  have p: "bgm_path (demo_args\<lparr>bgm_path := Some ''corrupt.mp3'', log_given := True\<rparr>)
             = Some ''corrupt.mp3''"
    by simp
  have c: "AudioFileClip demo_env ''corrupt.mp3'' = Inl (LibraryError ''OSError'')"
    by (simp add: demo_env_def)
  from bgm_failure_not_fatal [OF p _ c] p c corrupt_run [of True] show ?thesis
    by (simp add: demo_args_def)
qed

text \<open>
  C5 as stated also promises that a warning is recorded. Without a \<open>log\<close> callback
  (the default, and what the web front end passes) the render completes and records
  nothing about the music.
\<close>

theorem bgm_warning_counterexample:
  "AudioFileClip demo_env ''corrupt.mp3'' = Inl (LibraryError ''OSError'')
   \<and> build_video demo_env (demo_args\<lparr>bgm_path := Some ''corrupt.mp3'', log_given := False\<rparr>) =
     (Inr ''output.mp4'',
      [TempDirsEnsured, BackgroundSaved ''temp/images/fallback_bg.jpg'',
       SpeechSaved ''temp/audio/en.mp3'', SpeechSaved ''temp/audio/ur.mp3'', FrameRendered,
       SpeechSaved ''temp/audio/en.mp3'', SpeechSaved ''temp/audio/ur.mp3'', FrameRendered,
       OutputFile ''output.mp4'' Complete])"
  using corrupt_run [of False] by (simp add: demo_env_def)

subsection \<open>Input errors\<close>

lemma missing_texts_are_empty:
  assumes "''en'' \<notin> fst ` set pair" and "''ur'' \<notin> fst ` set pair"
  shows "dict_get ((''en'', JStr []) # (''ur'', JStr []) # pair) k (JStr []) = dict_get pair k (JStr [])"
    and "k \<noteq> ''en'' \<Longrightarrow> k \<noteq> ''ur'' \<Longrightarrow> dict_get ((''en'', JStr []) # (''ur'', JStr []) # pair) k d = dict_get pair k d"
  using assms
  by (auto simp: dict_get_def map_add_def map_of_eq_None_iff [THEN iffD2] split: option.splits)

text \<open>
  C6, amended. \<open>build_video\<close> raises \<open>ValueError\<close>, having done nothing at all (no
  directory, no picture, no speech, no output file), when the parsed script is not a
  list and when it is the empty list. An entry that has neither \<open>en\<close> nor \<open>ur\<close>
  is no error: the loop body treats it exactly as the entry with both texts empty.
\<close>

theorem script_input_errors:
  "(read_json ev (script_path args) = Inr v \<and> \<not> is_list v \<longrightarrow>
      build_video ev args
        = (Inl (ValueError ''Script must be a list of {en, ur} objects''), []))
   \<and> (read_json ev (script_path args) = Inr (JArr []) \<longrightarrow>
      build_video ev args = (Inl (ValueError ''Script is empty''), []))
   \<and> (''en'' \<notin> fst ` set pair \<and> ''ur'' \<notin> fst ` set pair \<longrightarrow>
      build_segment ev args bg n idx (JObj pair) tr
        = build_segment ev args bg n idx
            (JObj ((''en'', JStr []) # (''ur'', JStr []) # pair)) tr)"
proof (intro conjI impI)
  assume "read_json ev (script_path args) = Inr v \<and> \<not> is_list v"
  then show "build_video ev args
        = (Inl (ValueError ''Script must be a list of {en, ur} objects''), [])"
    by (cases v) (simp_all add: build_video_def assemble_def segments_timeline_def load_script_def)
next
  assume "read_json ev (script_path args) = Inr (JArr [])"
  then show "build_video ev args = (Inl (ValueError ''Script is empty''), [])"
    by (simp add: build_video_def assemble_def segments_timeline_def load_script_def)
next
  assume a: "''en'' \<notin> fst ` set pair \<and> ''ur'' \<notin> fst ` set pair"
  let ?pair = "(''en'', JStr []) # (''ur'', JStr []) # pair"
  have g: "dict_get ?pair ''en'' (JStr []) = dict_get pair ''en'' (JStr [])"
    "dict_get ?pair ''ur'' (JStr []) = dict_get pair ''ur'' (JStr [])"
    "dict_get ?pair ''pause_after'' (JNum 0.0) = dict_get pair ''pause_after'' (JNum 0.0)"
    "dict_get ?pair ''min_duration'' (JNum 0.0) = dict_get pair ''min_duration'' (JNum 0.0)"
    using a by (simp_all add: missing_texts_are_empty)
  have s: "schedule_segment ev ?pair t = schedule_segment ev pair t" for t
    unfolding schedule_segment_def g ..
  have r: "render_caption_frame ev bg ?pair a b = render_caption_frame ev bg pair a b" for a b
    unfolding render_caption_frame_def g ..
  have m: "make_clip ev args bg ?pair sg t = make_clip ev args bg pair sg t" for sg t
    unfolding make_clip_def r ..
  show "build_segment ev args bg n idx (JObj pair) tr
        = build_segment ev args bg n idx (JObj ?pair) tr"
    by (simp add: build_segment_def s m Let_def split: prod.splits sum.splits)
qed

lemma blank_run:
  "build_video demo_env (demo_args\<lparr>script_path := ''blank.json''\<rparr>) =
     (Inr ''output.mp4'',
      [TempDirsEnsured, BackgroundSaved ''temp/images/fallback_bg.jpg'',
       SpeechSaved ''temp/audio/en.mp3'', SpeechSaved ''temp/audio/ur.mp3'', FrameRendered,
       OutputFile ''output.mp4'' Complete])"
  by (simp add: run_defs demo_env_frame [unfolded demo_env_def] demo_env_def demo_args_def)

lemma strict_blank_run:
  "build_video strict_tts_env (demo_args\<lparr>script_path := ''blank.json''\<rparr>) =
     (Inl (LibraryError ''NoAudioReceived''),
      [TempDirsEnsured, BackgroundSaved ''temp/images/fallback_bg.jpg''])"
  by (simp add: run_defs strict_tts_env_def demo_env_def demo_args_def)

text \<open>
  C6 as stated: an entry with neither \<open>en\<close> nor \<open>ur\<close> would be a fatal input error
  raised before anything is rendered. For the script \<open>[{}]\<close> the render runs to the
  end and writes the output when the speech service accepts empty text; when the service
  refuses it, the exception is the service's, raised after the background was saved.
\<close>

theorem missing_texts_counterexample:
  "read_json demo_env ''blank.json'' = Inr (JArr [JObj []])
   \<and> build_video demo_env (demo_args\<lparr>script_path := ''blank.json''\<rparr>) =
     (Inr ''output.mp4'',
      [TempDirsEnsured, BackgroundSaved ''temp/images/fallback_bg.jpg'',
       SpeechSaved ''temp/audio/en.mp3'', SpeechSaved ''temp/audio/ur.mp3'', FrameRendered,
       OutputFile ''output.mp4'' Complete])
   \<and> read_json strict_tts_env ''blank.json'' = Inr (JArr [JObj []])
   \<and> build_video strict_tts_env (demo_args\<lparr>script_path := ''blank.json''\<rparr>) =
     (Inl (LibraryError ''NoAudioReceived''),
      [TempDirsEnsured, BackgroundSaved ''temp/images/fallback_bg.jpg''])"
  using blank_run strict_blank_run by (simp add: strict_tts_env_def demo_env_def)

text \<open>A script that is an object, and an empty script.\<close>

theorem script_input_errors_witness:
  "read_json demo_env ''object.json'' = Inr (JObj [(''en'', JStr ''Hi'')])
   \<and> build_video demo_env (demo_args\<lparr>script_path := ''object.json''\<rparr>)
       = (Inl (ValueError ''Script must be a list of {en, ur} objects''), [])
   \<and> read_json demo_env ''empty.json'' = Inr (JArr [])
   \<and> build_video demo_env (demo_args\<lparr>script_path := ''empty.json''\<rparr>)
       = (Inl (ValueError ''Script is empty''), [])"
proof -
  have 1: "read_json demo_env (script_path (demo_args\<lparr>script_path := ''object.json''\<rparr>))
             = Inr (JObj [(''en'', JStr ''Hi'')])"
    by (simp add: demo_env_def)
  have 2: "read_json demo_env (script_path (demo_args\<lparr>script_path := ''empty.json''\<rparr>))
             = Inr (JArr [])"
    by (simp add: demo_env_def)
  from script_input_errors [of demo_env "demo_args\<lparr>script_path := ''object.json''\<rparr>"
         "JObj [(''en'', JStr ''Hi'')]"] 1
       script_input_errors [of demo_env "demo_args\<lparr>script_path := ''empty.json''\<rparr>"] 2
  show ?thesis by simp
qed

subsection \<open>The destination path\<close>

lemma schedule_segment_no_output:
  "\<not> list_ex is_output tr \<Longrightarrow> \<not> list_ex is_output (snd (schedule_segment ev pair tr))"
  by (simp add: schedule_segment_def Let_def split: sum.splits)

lemma make_clip_no_output:
  "\<not> list_ex is_output tr \<Longrightarrow> \<not> list_ex is_output (snd (make_clip ev args bg pair sg tr))"
  by (simp add: make_clip_def Let_def split: sum.splits)

lemma build_segment_no_output:
  assumes "\<not> list_ex is_output tr"
  shows "\<not> list_ex is_output (snd (build_segment ev args bg n idx entry tr))"
proof (cases entry)
  case (JObj pair)
  let ?tr1 = "if log_given args then tr @ [Logged (SegmentProgress idx n)] else tr"
  have 1: "\<not> list_ex is_output ?tr1" using assms by simp
  obtain r tr2 where s: "schedule_segment ev pair ?tr1 = (r, tr2)"
    by (cases "schedule_segment ev pair ?tr1")
  with schedule_segment_no_output [OF 1, of ev pair] have 2: "\<not> list_ex is_output tr2" by simp
  show ?thesis
  proof (cases r)
    case (Inl e)
    with JObj s 2 show ?thesis by (simp add: build_segment_def Let_def)
  next
    case (Inr sg)
    with JObj s make_clip_no_output [OF 2, of ev args bg pair sg] show ?thesis
      by (simp add: build_segment_def Let_def)
  qed
qed (use assms in \<open>simp_all add: build_segment_def Let_def\<close>)

lemma build_clips_no_output:
  "\<not> list_ex is_output tr \<Longrightarrow>
     \<not> list_ex is_output (snd (build_clips ev args bg n idx segs tr))"
proof (induction segs arbitrary: idx tr)
  case Nil
  then show ?case by simp
next
  case (Cons entry rest)
  obtain r tr1 where b: "build_segment ev args bg n idx entry tr = (r, tr1)"
    by (cases "build_segment ev args bg n idx entry tr")
  with build_segment_no_output [OF Cons.prems, of ev args bg n idx entry]
  have 1: "\<not> list_ex is_output tr1" by simp
  show ?case
  proof (cases r)
    case (Inl e)
    with b 1 show ?thesis by simp
  next
    case (Inr clip)
    with b Cons.IH [OF 1, of "Suc idx"] show ?thesis
      by (cases "build_clips ev args bg n (Suc idx) rest tr1") (auto split: sum.splits)
  qed
qed

lemma background_no_output: "\<not> list_ex is_output (snd (background ev args))"
  by (simp add: background_def split: sum.splits option.splits)

lemma segments_timeline_no_output: "\<not> list_ex is_output (snd (segments_timeline ev args))"
proof (cases "load_script ev (script_path args)")
  case (Inl e)
  then show ?thesis by (simp add: segments_timeline_def)
next
  case (Inr segments)
  obtain rb tr0 where b: "background ev args = (rb, tr0)" by (cases "background ev args")
  with background_no_output [of ev args] have 0: "\<not> list_ex is_output tr0" by simp
  show ?thesis
  proof (cases rb)
    case (Inl e)
    with Inr b 0 show ?thesis by (simp add: segments_timeline_def)
  next
    case bg: (Inr bg)
    obtain rc tr1 where c: "build_clips ev args bg (length segments) 1 segments tr0 = (rc, tr1)"
      by (cases "build_clips ev args bg (length segments) 1 segments tr0")
    with build_clips_no_output [OF 0, of ev args bg "length segments" 1 segments]
    have 1: "\<not> list_ex is_output tr1" by simp
    with Inr b bg c show ?thesis
      by (simp add: segments_timeline_def split: sum.splits)
  qed
qed

lemma add_bgm_no_output:
  "\<not> list_ex is_output tr \<Longrightarrow> \<not> list_ex is_output (snd (add_bgm ev args final tr))"
  by (simp add: add_bgm_def split: sum.splits)

lemma assemble_no_output: "\<not> list_ex is_output (snd (assemble ev args))"
proof -
  obtain r tr where s: "segments_timeline ev args = (r, tr)"
    by (cases "segments_timeline ev args")
  with segments_timeline_no_output [of ev args] have 0: "\<not> list_ex is_output tr" by simp
  show ?thesis
  proof (cases r)
    case (Inl e)
    with s 0 show ?thesis by (simp add: assemble_def)
  next
    case (Inr final)
    with s add_bgm_no_output [OF 0, of ev args final] show ?thesis
      by (cases "add_bgm ev args final tr") (simp add: assemble_def)
  qed
qed

text \<open>
  C8, amended. Nothing that \<open>build_video\<close> does before it calls the encoder writes an
  output file; so a fatal error raised before the encoder is called (an input error, a
  resource error, a synthesis failure) is returned with the destination untouched. The
  encoder is given the destination path itself.
\<close>

theorem destination_untouched_before_encoding:
  "\<not> list_ex is_output (snd (assemble ev args))
   \<and> (fst (assemble ev args) = Inl e \<longrightarrow>
        build_video ev args = (Inl e, snd (assemble ev args))
        \<and> \<not> list_ex is_output (snd (build_video ev args)))"
proof -
  have "build_video ev args = (Inl e, snd (assemble ev args))" if "fst (assemble ev args) = Inl e"
    using that by (cases "assemble ev args") (simp add: build_video_def)
  with assemble_no_output [of ev args] show ?thesis by simp
qed

text \<open>A synthesis failure.\<close>

theorem destination_untouched_before_encoding_witness:
  "fst (assemble strict_tts_env (demo_args\<lparr>script_path := ''blank.json''\<rparr>))
     = Inl (LibraryError ''NoAudioReceived'')
   \<and> build_video strict_tts_env (demo_args\<lparr>script_path := ''blank.json''\<rparr>)
       = (Inl (LibraryError ''NoAudioReceived''),
          [TempDirsEnsured, BackgroundSaved ''temp/images/fallback_bg.jpg''])
   \<and> \<not> list_ex is_output
         (snd (build_video strict_tts_env (demo_args\<lparr>script_path := ''blank.json''\<rparr>)))"
proof -
  have a: "fst (assemble strict_tts_env (demo_args\<lparr>script_path := ''blank.json''\<rparr>))
     = Inl (LibraryError ''NoAudioReceived'')"
    by (simp add: run_defs strict_tts_env_def demo_env_def demo_args_def)
  from destination_untouched_before_encoding
         [of strict_tts_env "demo_args\<lparr>script_path := ''blank.json''\<rparr>"
             "LibraryError ''NoAudioReceived''"] a strict_blank_run
  show ?thesis by simp
qed

lemma full_disk_frame:
  "render_caption_frame full_disk_env bg pair None None
     = Inr \<lparr>fr_background = bg,
            fr_en_font = \<lparr>font_file = ''C:/Windows/Fonts/Arial.ttf'', font_size = en_font_size * 2\<rparr>,
            fr_ur_font = \<lparr>font_file = ''C:/Windows/Fonts/Arial.ttf'', font_size = ur_font_size * 2\<rparr>,
            fr_en_text = dict_get pair ''en'' (JStr []),
            fr_ur_text = dict_get pair ''ur'' (JStr [])\<rparr>"
  by (rule demo_frame) (simp_all add: full_disk_env_def demo_env_def)

text \<open>
  C8 as stated covers encoding failures too. \<open>build_video\<close> passes \<open>output_path\<close>
  to \<open>write_videofile\<close> and neither writes to a temporary file first nor removes
  anything on failure: when the encoder fails after it has created the file, the partial
  file stays at the destination.
\<close>

theorem partial_output_counterexample:
  "build_video full_disk_env demo_args =
     (Inl (LibraryError ''OSError: No space left on device''),
      [TempDirsEnsured, BackgroundSaved ''temp/images/fallback_bg.jpg'',
       SpeechSaved ''temp/audio/en.mp3'', SpeechSaved ''temp/audio/ur.mp3'', FrameRendered,
       SpeechSaved ''temp/audio/en.mp3'', SpeechSaved ''temp/audio/ur.mp3'', FrameRendered,
       OutputFile ''output.mp4'' Partial])"
  by (simp add: run_defs full_disk_frame [unfolded full_disk_env_def demo_env_def, simplified]
      full_disk_env_def demo_env_def demo_args_def)

section \<open>Properties of font loading\<close>

text \<open>
  C7, amended. \<open>load_font\<close> fails with an error that carries the path it was given
  whenever that path is \<open>None\<close>, empty, not an existing file, or a file the font
  library cannot load; a font it returns is the font of the path it was given. An
  override path that is not empty is passed on unchanged by \<open>get_urdu_font_path\<close> and
  \<open>get_english_font_path\<close>, so a missing override reaches \<open>load_font\<close> and fails there.
\<close>

theorem font_loading_fails_loudly:
  "load_font fs None sz = Inl (FontPathMissing None)
   \<and> (file = [] \<or> \<not> isfile fs file \<longrightarrow>
        load_font fs (Some file) sz = Inl (FontPathMissing (Some file)))
   \<and> (file \<noteq> [] \<and> isfile fs file \<and> truetype fs file sz = Some exc \<longrightarrow>
        load_font fs (Some file) sz = Inl (FailedToLoadFont file exc))
   \<and> (load_font fs p sz = Inr f \<longrightarrow> p = Some (font_file f))
   \<and> (file \<noteq> [] \<longrightarrow>
        get_urdu_font_path fs (Some file) = Inr (Some file)
        \<and> get_english_font_path fs (Some file) = Inr (Some file))"
  by (cases p)
    (auto simp: load_font_def get_urdu_font_path_def get_english_font_path_def
      split: option.splits if_splits)

text \<open>An override that does not exist, and a font file that cannot be read.\<close>

theorem font_loading_fails_loudly_witness:
  "\<not> isfile demo_fonts ''fonts/Jameel.ttf''
   \<and> get_urdu_font_path demo_fonts (Some ''fonts/Jameel.ttf'') = Inr (Some ''fonts/Jameel.ttf'')
   \<and> load_font demo_fonts (Some ''fonts/Jameel.ttf'') 128
       = Inl (FontPathMissing (Some ''fonts/Jameel.ttf''))
   \<and> isfile unreadable_fonts ''C:/Windows/Fonts/Arial.ttf''
   \<and> truetype unreadable_fonts ''C:/Windows/Fonts/Arial.ttf'' 128
       = Some (LibraryError ''OSError: unknown file format'')
   \<and> load_font unreadable_fonts (Some ''C:/Windows/Fonts/Arial.ttf'') 128
       = Inl (FailedToLoadFont ''C:/Windows/Fonts/Arial.ttf''
               (LibraryError ''OSError: unknown file format''))"
  using font_loading_fails_loudly [of demo_fonts 128 "''fonts/Jameel.ttf''"]
        font_loading_fails_loudly [of unreadable_fonts 128 "''C:/Windows/Fonts/Arial.ttf''"
          "LibraryError ''OSError: unknown file format''"]
  by (simp add: demo_fonts_def unreadable_fonts_def)

lemma misconfigured_candidates:
  "candidate_font_paths misconfigured_fonts = [''C:/Windows/Fonts/Arial.ttf'']"
  by (simp add: candidate_font_paths_def font_files_in_def misconfigured_fonts_def
      demo_fonts_def endswith_def lower_def lower_char_def)

lemma misconfigured_lower_map:
  "lower_map misconfigured_fonts [''C:/Windows/Fonts/Arial.ttf'']
     = [(''arial.ttf'', ''C:/Windows/Fonts/Arial.ttf'')]"
  by (simp add: lower_map_def misconfigured_fonts_def demo_fonts_def posix_basename_def
      lower_def lower_char_def)

text \<open>
  C7 as stated: no requested font would ever be replaced by another script's font.
  A font path requested in \<open>fonts_config.json\<close> that does not exist is skipped
  without an error, and the Urdu font is then searched by name, Arial first: the Urdu
  text is drawn in Arial.
\<close>

theorem urdu_font_fallback_counterexample:
  "load_fonts_config misconfigured_fonts
     = JObj [(''urdu_font_path'', JStr ''fonts/NotoNastaliqUrdu.ttf'')]
   \<and> \<not> isfile misconfigured_fonts ''fonts/NotoNastaliqUrdu.ttf''
   \<and> get_urdu_font_path misconfigured_fonts None = Inr (Some ''C:/Windows/Fonts/Arial.ttf'')
   \<and> load_font misconfigured_fonts (Some ''C:/Windows/Fonts/Arial.ttf'') (ur_font_size * 2)
       = Inr \<lparr>font_file = ''C:/Windows/Fonts/Arial.ttf'', font_size = ur_font_size * 2\<rparr>"
proof -
  have c: "load_fonts_config misconfigured_fonts
     = JObj [(''urdu_font_path'', JStr ''fonts/NotoNastaliqUrdu.ttf'')]"
    by (simp add: load_fonts_config_def misconfigured_fonts_def demo_fonts_def)
  have i: "\<not> isfile misconfigured_fonts ''fonts/NotoNastaliqUrdu.ttf''"
    by (simp add: misconfigured_fonts_def demo_fonts_def)
  have g: "get_urdu_font_path misconfigured_fonts None = Inr (Some ''C:/Windows/Fonts/Arial.ttf'')"
    by (simp add: get_urdu_font_path_def c i dict_get_def find_font_by_preferred_names_def
        misconfigured_candidates misconfigured_lower_map PREFERRED_FONTS_URDU_def
        lower_def lower_char_def)
  have l: "load_font misconfigured_fonts (Some ''C:/Windows/Fonts/Arial.ttf'') (ur_font_size * 2)
       = Inr \<lparr>font_file = ''C:/Windows/Fonts/Arial.ttf'', font_size = ur_font_size * 2\<rparr>"
    by (simp add: load_font_def misconfigured_fonts_def demo_fonts_def)
  from c i g l show ?thesis by blast
qed

section \<open>Properties of the wrapping\<close>

lemma greedy_lines_fit:
  "cur = [] \<or> width (join_line cur) \<le> mx \<or> length cur = 1 \<Longrightarrow>
     \<forall>l \<in> set (greedy width mx cur ts). width (join_line l) \<le> mx \<or> length l = 1"
  by (induction width mx cur ts rule: greedy.induct) auto

lemma concat_greedy: "concat (greedy width mx cur ts) = cur @ ts"
  by (induction width mx cur ts rule: greedy.induct) auto

lemma greedy_no_empty_line: "[] \<notin> set (greedy width mx cur ts)"
  by (induction width mx cur ts rule: greedy.induct) auto

lemma greedy_nonempty: "cur \<noteq> [] \<Longrightarrow> greedy width mx cur ts \<noteq> []"
  by (induction width mx cur ts rule: greedy.induct) auto

lemma greedy_single_line:
  "cur \<noteq> [] \<Longrightarrow> length (greedy width mx cur ts) = 1 \<Longrightarrow> ts \<noteq> [] \<Longrightarrow>
     width (join_line (cur @ ts)) \<le> mx"
proof (induction width mx cur ts rule: greedy.induct)
  case (1 width max_width cur)
  then show ?case by simp
next
  case (2 width max_width cur t ts)
  show ?case
  proof (cases "width (join_line (cur @ [t])) \<le> max_width")
    case True
    show ?thesis
    proof (cases "ts = []")
      case True
      with \<open>width (join_line (cur @ [t])) \<le> max_width\<close> show ?thesis by simp
    next
      case False
      with 2 True show ?thesis by simp
    qed
  next
    case False
    with 2 greedy_nonempty [of "[t]" width max_width ts] show ?thesis
      by (auto simp: length_Suc_conv)
  qed
qed

lemma greedy_two_lines:
  assumes "2 \<le> length ts" and "mx < width (join_line ts)"
  shows "2 \<le> length (greedy width mx [] ts)"
proof -
  from assms(1) obtain t ts' where ts: "ts = t # ts'" and ne: "ts' \<noteq> []"
    by (cases ts) (auto simp: Suc_le_eq)
  have g: "greedy width mx [] ts = greedy width mx [t] ts'" by (simp add: ts)
  have "length (greedy width mx [t] ts') \<noteq> 1"
    using greedy_single_line [of "[t]" width mx ts'] ne assms(2) ts by auto
  moreover have "greedy width mx [t] ts' \<noteq> []" by (simp add: greedy_nonempty)
  ultimately show ?thesis by (cases "greedy width mx [t] ts'") (auto simp: g Suc_le_eq)
qed

text \<open>
  C9, amended. Every line that the wrapping produces fits \<open>max_width\<close> or holds a
  single token; no line is empty and the lines hold the tokens of the text in order, so
  that wrapping always returns and loses nothing; both directions give the lines joined
  by single spaces. A text of at least two tokens that is wider than \<open>max_width\<close>
  when set on one line gives at least two lines. When no line measures less than a
  token on it, a token wider than \<open>max_width\<close> is alone on its line.
\<close>

theorem greedy_wrap_lines:
  "(\<forall>l \<in> set (wrap_lines width text mx). width (join_line l) \<le> mx \<or> length l = 1)
   \<and> [] \<notin> set (wrap_lines width text mx)
   \<and> concat (wrap_lines width text mx) = tokens text
   \<and> wrap_text_ltr width text mx = map join_line (wrap_lines width text mx)
   \<and> wrap_text_rtl width text mx = map join_line (wrap_lines width text mx)
   \<and> (2 \<le> length (tokens text) \<and> mx < width (join_line (tokens text)) \<longrightarrow>
        2 \<le> length (wrap_text_ltr width text mx) \<and> 2 \<le> length (wrap_text_rtl width text mx))
   \<and> ((\<forall>l t. t \<in> set l \<longrightarrow> width t \<le> width (join_line l)) \<longrightarrow>
        (\<forall>l \<in> set (wrap_lines width text mx). \<forall>t \<in> set l. mx < width t \<longrightarrow> l = [t]))"
proof -
  have fit: "\<forall>l \<in> set (wrap_lines width text mx). width (join_line l) \<le> mx \<or> length l = 1"
    unfolding wrap_lines_def by (rule greedy_lines_fit) simp
  have alone: "l = [t]"
    if mono: "\<forall>l t. t \<in> set l \<longrightarrow> width t \<le> width (join_line l)"
      and l: "l \<in> set (wrap_lines width text mx)" and t: "t \<in> set l" and w: "mx < width t"
    for l t
  proof -
    from mono t have "width t \<le> width (join_line l)" by blast
    with w fit l have "length l = 1" by fastforce
    with t show ?thesis by (cases l) auto
  qed
  have two: "2 \<le> length (map join_line (wrap_lines width text mx))"
    if "2 \<le> length (tokens text) \<and> mx < width (join_line (tokens text))"
    using that by (simp add: wrap_lines_def greedy_two_lines)
  have ne: "[] \<notin> set (wrap_lines width text mx)"
    by (simp add: wrap_lines_def greedy_no_empty_line)
  have cc: "concat (wrap_lines width text mx) = tokens text"
    by (simp add: wrap_lines_def concat_greedy)
  have ltr: "wrap_text_ltr width text mx = map join_line (wrap_lines width text mx)"
    and rtl: "wrap_text_rtl width text mx = map join_line (wrap_lines width text mx)"
    by (simp_all add: wrap_text_ltr_def wrap_text_rtl_def)
  from fit ne cc two alone show ?thesis
    unfolding ltr rtl by blast
qed

lemma length_join_line: "t \<in> set l \<Longrightarrow> length t \<le> length (join_line l)"
  by (induction l rule: join_line.induct) auto

lemma wrap_example:
  "tokens ''a  bb ccc'' = [''a'', ''bb'', ''ccc'']"
  "wrap_lines length ''a  bb ccc'' 4 = [[''a'', ''bb''], [''ccc'']]"
  "wrap_lines length ''a bb ccccccc'' 4 = [[''a'', ''bb''], [''ccccccc'']]"
  by (simp_all add: wrap_lines_def tokens_def is_space_def)

text \<open>Three tokens on two lines, and a token too wide for any line.\<close>

theorem greedy_wrap_lines_witness:
  "2 \<le> length (tokens ''a  bb ccc'')
   \<and> 4 < length (join_line (tokens ''a  bb ccc''))
   \<and> wrap_text_ltr length ''a  bb ccc'' 4 = [''a bb'', ''ccc'']
   \<and> wrap_text_rtl length ''a  bb ccc'' 4 = [''a bb'', ''ccc'']
   \<and> 2 \<le> length (wrap_text_ltr length ''a  bb ccc'' 4)
   \<and> [''a'', ''bb'', ''ccccccc''] \<notin> set (wrap_lines length ''a bb ccccccc'' 4)
   \<and> [''ccccccc''] \<in> set (wrap_lines length ''a bb ccccccc'' 4)"
proof -
  have 1: "2 \<le> length (tokens ''a  bb ccc'')"
    and 2: "4 < length (join_line (tokens ''a  bb ccc''))"
    by (simp_all add: wrap_example)
  have 3: "wrap_text_ltr length ''a  bb ccc'' 4 = [''a bb'', ''ccc'']"
    using greedy_wrap_lines [of length "''a  bb ccc''" 4] by (simp add: wrap_example)
  have 4: "wrap_text_rtl length ''a  bb ccc'' 4 = [''a bb'', ''ccc'']"
    using greedy_wrap_lines [of length "''a  bb ccc''" 4] by (simp add: wrap_example)
  have 5: "2 \<le> length (wrap_text_ltr length ''a  bb ccc'' 4)"
    using greedy_wrap_lines [of length "''a  bb ccc''" 4] 1 2 by blast
  have mono: "\<forall>l t. t \<in> set l \<longrightarrow> length t \<le> length (join_line l)"
    by (simp add: length_join_line)
  from greedy_wrap_lines [of length "''a bb ccccccc''" 4]
  have "(\<forall>l t. t \<in> set l \<longrightarrow> length t \<le> length (join_line l)) \<longrightarrow>
        (\<forall>l \<in> set (wrap_lines length ''a bb ccccccc'' 4).
           \<forall>t \<in> set l. 4 < length t \<longrightarrow> l = [t])"
    by (elim conjE)
  with mono have alone: "\<forall>l \<in> set (wrap_lines length ''a bb ccccccc'' 4).
           \<forall>t \<in> set l. 4 < length t \<longrightarrow> l = [t]"
    by (rule rev_mp)
  have 6: "[''a'', ''bb'', ''ccccccc''] \<notin> set (wrap_lines length ''a bb ccccccc'' 4)"
  proof
    assume m: "[''a'', ''bb'', ''ccccccc''] \<in> set (wrap_lines length ''a bb ccccccc'' 4)"
    from alone m have "\<forall>t \<in> set [''a'', ''bb'', ''ccccccc''].
        4 < length t \<longrightarrow> [''a'', ''bb'', ''ccccccc''] = [t]"
      by (rule bspec)
    then show False by simp
  qed
  have 7: "[''ccccccc''] \<in> set (wrap_lines length ''a bb ccccccc'' 4)"
    by (simp add: wrap_example)
  from 1 2 3 4 5 6 7 show ?thesis by blast
qed

text \<open>
  C9 as stated: every non-empty text wider than \<open>max_width\<close> would give at least two
  lines. A text of one token that is wider than \<open>max_width\<close> gives one line.
\<close>

theorem single_token_counterexample:
  "''Supercalifragilistic'' \<noteq> []
   \<and> 5 < length ''Supercalifragilistic''
   \<and> wrap_text_ltr length ''Supercalifragilistic'' 5 = [''Supercalifragilistic'']
   \<and> wrap_text_rtl length ''Supercalifragilistic'' 5 = [''Supercalifragilistic'']"
  by (simp add: wrap_text_ltr_def wrap_text_rtl_def wrap_lines_def tokens_def is_space_def)

end
